theory Spec2Isabelle
  imports Main
begin

section \<open>Values of the host language\<close>

text \<open>
  The program is the entry point of the bridge, \<^verbatim>\<open>src/discordas.ts\<close>.  Its values are
  dynamically typed: parsed YAML documents, the arguments of log calls and the
  registration object are all plain JavaScript values.  Numbers are integers here (ports);
  \<^verbatim>\<open>NaN\<close> and fractions are not represented.  Objects carry data properties only.
  An error is either created by the program or a collaborator, \<^verbatim>\<open>Error(message)\<close>, or a
  \<^verbatim>\<open>TypeError\<close> raised by the engine, whose message is the engine's own and is not
  modelled.
\<close>

datatype error = Error string | TypeError

datatype jsval =
    JUndefined
  | JNull
  | JBool bool
  | JNum int
  | JStr string
  | JArr "jsval list"
  | JObj "(string \<times> jsval) list"
  | JErr error


fun typeof :: "jsval \<Rightarrow> string" where
  "typeof JUndefined = ''undefined''"
| "typeof JNull = ''object''"
| "typeof (JBool b) = ''boolean''"
| "typeof (JNum n) = ''number''"
| "typeof (JStr s) = ''string''"
| "typeof (JArr xs) = ''object''"
| "typeof (JObj kvs) = ''object''"
| "typeof (JErr e) = ''object''"


text \<open>\<^verbatim>\<open>s.includes(t)\<close> on strings: \<open>t\<close> occurs in \<open>s\<close> as a contiguous substring.\<close>

primrec includes_str :: "string \<Rightarrow> string \<Rightarrow> bool" where
  "includes_str [] t = (t = [])"
| "includes_str (c # cs) t = (take (length t) (c # cs) = t \<or> includes_str cs t)"

text \<open>
  Optional typed values (a command-line option that was not given, a configuration field
  that was never set) are \<open>None\<close>; the tests the program makes on them are truthiness
  tests, so an empty string and the number zero count as absent too.
\<close>

definition truthy_str :: "string option \<Rightarrow> bool" where
  "truthy_str v = (case v of None \<Rightarrow> False | Some s \<Rightarrow> s \<noteq> [])"

definition truthy_num :: "int option \<Rightarrow> bool" where
  "truthy_num v = (case v of None \<Rightarrow> False | Some n \<Rightarrow> n \<noteq> 0)"

text \<open>\<^verbatim>\<open>a || "default"\<close> on an optional string, \<^verbatim>\<open>a || b\<close> on optional numbers.\<close>

definition or_str :: "string option \<Rightarrow> string \<Rightarrow> string" where
  "or_str a d = (case a of None \<Rightarrow> d | Some s \<Rightarrow> if s \<noteq> [] then s else d)"

definition or_num :: "int option \<Rightarrow> int option \<Rightarrow> int option" where
  "or_num a b = (if truthy_num a then a else b)"

definition of_str :: "string option \<Rightarrow> jsval" where
  "of_str v = (case v of None \<Rightarrow> JUndefined | Some s \<Rightarrow> JStr s)"

text \<open>Decimal rendering of a number inside a template literal.\<close>

fun show_nat :: "nat \<Rightarrow> string" where
  "show_nat n =
     (if n < 10 then [''0123456789'' ! n]
      else show_nat (n div 10) @ [''0123456789'' ! (n mod 10)])"

declare show_nat.simps [simp del]

definition show_num :: "int option \<Rightarrow> string" where
  "show_num v =
     (case v of
        None \<Rightarrow> ''undefined''
      | Some n \<Rightarrow> if n < 0 then CHR ''-'' # show_nat (nat (- n)) else show_nat (nat n))"

text \<open>Property read \<^verbatim>\<open>v.key\<close>: a \<^verbatim>\<open>TypeError\<close> on \<^verbatim>\<open>undefined\<close> and \<^verbatim>\<open>null\<close>.\<close>

fun property :: "jsval \<Rightarrow> string \<Rightarrow> error + jsval" where
  "property JUndefined k = Inl TypeError"
| "property JNull k = Inl TypeError"
| "property (JObj kvs) k = (case map_of kvs k of None \<Rightarrow> Inr JUndefined | Some v \<Rightarrow> Inr v)"
| "property v k = Inr JUndefined"

text \<open>The same read on a value known to be an object (used to inspect written documents).\<close>

definition field :: "string \<Rightarrow> jsval \<Rightarrow> jsval" where
  "field k v = (case property v k of Inl e \<Rightarrow> JUndefined | Inr x \<Rightarrow> x)"

section \<open>The process: observable events, state, and control\<close>

datatype opt_type = TString | TNumber | TBoolean

datatype usage_section =
    Content string string
  | OptionList string "(string \<times> string \<times> opt_type) list"

text \<open>
  Every call the program makes on the outside world is recorded, in order.
  A log call carries the module tag of the logger, the level and the arguments.
\<close>

datatype event =
    ConsoleLog "usage_section list"
  | ExistsSync string
  | ReadFileSync string
  | WriteFileSync string jsval
  | Uuid
  | LogCall string string "jsval list"
  | NewLog string
  | ApplyConfig
  | ApplyEnvironmentOverrides
  | LogConfigure
  | SetLogger
  | NewDiscordStore
  | NewAppservice string "string option" "string option" "int option" jsval
  | MetricsInit
  | MetricPegSet
  | StoreInit
  | NewDiscordBot
  | On string
  | BindThirdparty
  | AppserviceBegin
  | DiscordbotInit
  | DiscordbotRun
  | OnAliasQuery string
  | CreateRoom jsval
  | OnAliasQueried string jsval
  | GetEntriesByMatrixId string
  | OnEvent jsval jsval

text \<open>
  The file system maps a path to the document its text denotes (\<^verbatim>\<open>yaml.safeDump\<close> and
  \<^verbatim>\<open>yaml.safeLoad\<close> are taken as inverse to each other on documents); \<open>drawn\<close>
  counts the draws made from the token source; \<open>logMap\<close> is the set of module tags that
  have a cached logger.  Directories and permissions are not part of the file system:
  \<open>write_error\<close> gives, for a path that cannot be written (a missing directory, a
  read-only place), the error that a write to it throws.
\<close>

record world =
  fs :: "string \<rightharpoonup> jsval"
  write_error :: "string \<rightharpoonup> error"
  env :: "string \<rightharpoonup> string"
  drawn :: nat
  logMap :: "string set"
  trace :: "event list"

text \<open>A computation either returns, throws, or ends the process with an exit status.\<close>

datatype abort = Throw error | Exit int

type_synonym 'a proc = "world \<Rightarrow> (abort + 'a) \<times> world"

definition ret :: "'a \<Rightarrow> 'a proc" where
  "ret x w = (Inr x, w)"

definition throw :: "error \<Rightarrow> 'a proc" where
  "throw e w = (Inl (Throw e), w)"

definition process_exit :: "int \<Rightarrow> 'a proc" where
  "process_exit n w = (Inl (Exit n), w)"

definition bnd :: "'a proc \<Rightarrow> ('a \<Rightarrow> 'b proc) \<Rightarrow> 'b proc" where
  "bnd m f w = (case m w of (Inl a, w') \<Rightarrow> (Inl a, w') | (Inr x, w') \<Rightarrow> f x w')"

text \<open>\<^verbatim>\<open>try { m } catch (err) { h }\<close>: only a thrown error is caught, not a process exit.\<close>

definition try_catch :: "'a proc \<Rightarrow> (error \<Rightarrow> 'a proc) \<Rightarrow> 'a proc" where
  "try_catch m h w =
     (case m w of
        (Inl (Throw e), w') \<Rightarrow> h e w'
      | (Inl (Exit n), w') \<Rightarrow> (Inl (Exit n), w')
      | (Inr x, w') \<Rightarrow> (Inr x, w'))"

definition emit :: "event \<Rightarrow> unit proc" where
  "emit ev w = (Inr (), w\<lparr>trace := trace w @ [ev]\<rparr>)"

text \<open>A call into a collaborator: recorded, then it returns or throws as the collaborator decides.\<close>

definition call :: "event \<Rightarrow> error option \<Rightarrow> unit proc" where
  "call ev r = bnd (emit ev) (\<lambda>_. case r of None \<Rightarrow> ret () | Some e \<Rightarrow> throw e)"

definition call_val :: "event \<Rightarrow> error + 'a \<Rightarrow> 'a proc" where
  "call_val ev r = bnd (emit ev) (\<lambda>_. case r of Inl e \<Rightarrow> throw e | Inr v \<Rightarrow> ret v)"

text \<open>\<^verbatim>\<open>const log = new Log("DiscordAS")\<close> and its leveled methods.\<close>

definition log_error :: "jsval list \<Rightarrow> unit proc" where
  "log_error args = emit (LogCall ''DiscordAS'' ''error'' args)"

definition log_info :: "jsval list \<Rightarrow> unit proc" where
  "log_info args = emit (LogCall ''DiscordAS'' ''info'' args)"

text \<open>\<^verbatim>\<open>process.env\<close>.\<close>

definition process_env :: "(string \<rightharpoonup> string) proc" where
  "process_env w = (Inr (env w), w)"

text \<open>File system calls.\<close>

definition existsSync :: "string \<Rightarrow> bool proc" where
  "existsSync path = bnd (emit (ExistsSync path)) (\<lambda>_ w. (Inr (path \<in> dom (fs w)), w))"

text \<open>The error of a read of a file that does not exist.\<close>

definition ENOENT :: "string \<Rightarrow> error" where
  "ENOENT path =
     Error (''ENOENT: no such file or directory, open '' @ [CHR 0x27] @ path @ [CHR 0x27])"

definition readFileSync :: "string \<Rightarrow> jsval proc" where
  "readFileSync path =
     bnd (emit (ReadFileSync path))
       (\<lambda>_ w. case fs w path of
                 None \<Rightarrow> (Inl (Throw (ENOENT path)), w)
               | Some doc \<Rightarrow> (Inr doc, w))"

definition writeFileSync :: "string \<Rightarrow> jsval \<Rightarrow> unit proc" where
  "writeFileSync path doc =
     bnd (emit (WriteFileSync path doc))
       (\<lambda>_ w. case write_error w path of
                 Some e \<Rightarrow> (Inl (Throw e), w)
               | None \<Rightarrow> (Inr (), w\<lparr>fs := (fs w)(path \<mapsto> doc)\<rparr>))"

section \<open>Command line options\<close>

definition commandOptions :: "(string \<times> string \<times> opt_type) list" where
  "commandOptions =
     [(''config'', ''c'', TString),
      (''url'', ''u'', TString),
      (''port'', ''p'', TNumber),
      (''file'', ''f'', TString),
      (''generate-registration'', ''r'', TBoolean),
      (''help'', ''h'', TBoolean)]"

text \<open>The parsed options, \<^verbatim>\<open>cliArgs(commandOptions)\<close>; a flag that was not given is false.\<close>

record cli_opts =
  opt_config :: "string option"
  opt_url :: "string option"
  opt_port :: "int option"
  opt_file :: "string option"
  opt_generate_registration :: bool
  opt_help :: bool

section \<open>Collaborators\<close>

text \<open>
  Modelled from the spec: the class \<^verbatim>\<open>DiscordBridgeConfig\<close> of \<^verbatim>\<open>./config\<close>, which is not
  among the sources.  The spec's data model lists an optional integer listen port, a bind
  address, the home-network domain and base URL, the database descriptors with the two
  deprecated path fields, a metrics toggle and logging settings, and says that a
  configuration is constructed empty, populated from the parsed file and then overlaid by
  the environment.
\<close>

record DiscordBridgeConfigBridge =
  domain :: "string option"
  homeserverUrl :: "string option"
  port :: "int option"
  bindAddress :: "string option"

record DiscordBridgeConfigDatabase =
  roomStorePath :: "string option"
  userStorePath :: "string option"

record DiscordBridgeConfigMetrics =
  enable :: bool

record DiscordBridgeConfig =
  bridge :: DiscordBridgeConfigBridge
  database :: DiscordBridgeConfigDatabase
  metrics :: DiscordBridgeConfigMetrics
  logging :: jsval

definition new_DiscordBridgeConfig :: DiscordBridgeConfig where
  "new_DiscordBridgeConfig =
     \<lparr>bridge = \<lparr>domain = None, homeserverUrl = None, port = None, bindAddress = None\<rparr>,
      database = \<lparr>roomStorePath = None, userStorePath = None\<rparr>,
      metrics = \<lparr>enable = False\<rparr>,
      logging = JUndefined\<rparr>"

text \<open>
  What the imported modules do is a parameter of the model: the token source (the value of
  the \<open>i\<close>-th draw), the two configuration methods, and for every call that can fail the
  error it fails with, if any.  The bridge logic's handlers take their arguments and return
  or throw.
\<close>

record collaborators =
  uuid :: "nat \<Rightarrow> string"
  applyConfig :: "DiscordBridgeConfig \<Rightarrow> jsval \<Rightarrow> error + DiscordBridgeConfig"
  applyEnvironmentOverrides ::
    "DiscordBridgeConfig \<Rightarrow> (string \<rightharpoonup> string) \<Rightarrow> error + DiscordBridgeConfig"
  Log_Configure :: "error option"
  new_DiscordStore :: "error option"
  new_Appservice :: "error option"
  metrics_init :: "error option"
  store_init :: "error option"
  new_DiscordBot :: "error option"
  bindThirdparty :: "error option"
  appservice_begin :: "error option"
  discordbot_init :: "error option"
  discordbot_run :: "error option"
  roomhandler_OnAliasQuery :: "string \<Rightarrow> error + jsval"
  roomhandler_OnAliasQueried :: "string \<Rightarrow> jsval \<Rightarrow> error option"
  roomStore_getEntriesByMatrixId :: "string \<Rightarrow> error + jsval"
  eventProcessor_OnEvent :: "jsval \<Rightarrow> jsval \<Rightarrow> error option"

text \<open>\<^verbatim>\<open>uuid()\<close>: one draw from the token source.\<close>

definition uuid_v4 :: "collaborators \<Rightarrow> string proc" where
  "uuid_v4 c w = (Inr (uuid c (drawn w)), w\<lparr>drawn := Suc (drawn w), trace := trace w @ [Uuid]\<rparr>)"

section \<open>generateRegistration (lines 41--70)\<close>

definition generateRegistration :: "collaborators \<Rightarrow> cli_opts \<Rightarrow> string \<Rightarrow> unit proc" where
  "generateRegistration c opts registrationPath =
     (if \<not> truthy_str (opt_url opts) then
        throw (Error ([CHR 0x27] @ ''url'' @ [CHR 0x27] @
          '' not given in command line opts, cannot generate registration file''))
      else
        bnd (uuid_v4 c) (\<lambda>as_token.
        bnd (uuid_v4 c) (\<lambda>hs_token.
          let reg = JObj
            [(''as_token'', JStr as_token),
             (''hs_token'', JStr hs_token),
             (''id'', JStr ''discord-bridge''),
             (''namespaces'', JObj
                [(''aliases'', JArr
                    [JObj [(''exclusive'', JBool True), (''regex'', JStr ''#_discord_.*'')]]),
                 (''rooms'', JArr []),
                 (''users'', JArr
                    [JObj [(''exclusive'', JBool True), (''regex'', JStr ''@_discord_.*'')]])]),
             (''protocols'', JArr [JStr ''discord'']),
             (''rate_limited'', JBool False),
             (''sender_localpart'', JStr ''_discord_bot''),
             (''url'', of_str (opt_url opts))]
          in writeFileSync registrationPath reg)))"

section \<open>setupLogging (lines 72--102)\<close>





text \<open>The logger cached for a module tag, created on first use.\<close>

definition get_logger :: "string \<Rightarrow> unit proc" where
  "get_logger tag w =
     (if tag \<in> logMap w then (Inr (), w)
      else (Inr (), w\<lparr>logMap := insert tag (logMap w), trace := trace w @ [NewLog tag]\<rparr>))"


text \<open>
  The object handed to \<^verbatim>\<open>LogService.setLogger\<close>: four methods, each of the form
  \<^verbatim>\<open>(mod, args) => logFunc(level, mod, args)\<close>.  The transport's library calls a method
  with the module name and then any number of messages.  The method has one parameter
  after the module name: it is bound to the first message (\<^verbatim>\<open>undefined\<close> when there is
  none), and the messages after the first are dropped by the call.
\<close>

datatype ILogger = debug | error | info | warn



definition setupLogging :: "unit proc" where
  "setupLogging w = (Inr (), w\<lparr>logMap := {}, trace := trace w @ [SetLogger]\<rparr>)"

section \<open>run (lines 104--213)\<close>

definition legacy_msg :: string where
  "legacy_msg =
     ''The keys '' @ [CHR 0x27] @ ''roomStorePath'' @ [CHR 0x27] @ '' and/or '' @
     [CHR 0x27] @ ''userStorePath'' @ [CHR 0x27] @ '' is still defined in the config. '' @
     ''Please see docs/bridge-migrations.md on '' @
     ''https://github.com/Half-Shot/matrix-appservice-discord/''"

definition lift :: "error + 'a \<Rightarrow> 'a proc" where
  "lift r = (case r of Inl e \<Rightarrow> throw e | Inr v \<Rightarrow> ret v)"

text \<open>
  The local \<^verbatim>\<open>port\<close> of \<^verbatim>\<open>run\<close> is written \<open>port'\<close>, apart from the field of the
  configuration.  Lines 152--212: the store, the transport, metrics, store initialisation, the bridge
  logic, the two subscriptions, the transport's start and the bridge's start.
\<close>

definition start_bridge ::
  "collaborators \<Rightarrow> DiscordBridgeConfig \<Rightarrow> int option \<Rightarrow> jsval \<Rightarrow> unit proc" where
  "start_bridge c config port' registration =
     bnd (call NewDiscordStore (new_DiscordStore c)) (\<lambda>_.
     bnd (call (NewAppservice (or_str (bindAddress (bridge config)) ''0.0.0.0'')
                  (domain (bridge config)) (homeserverUrl (bridge config)) port' registration)
            (new_Appservice c)) (\<lambda>_.
     bnd (if enable (metrics config) then
            bnd (log_info [JStr ''Enabled metrics'']) (\<lambda>_.
            bnd (call MetricsInit (metrics_init c)) (\<lambda>_.
            emit MetricPegSet))
          else ret ()) (\<lambda>_.
     bnd (try_catch (call StoreInit (store_init c))
            (\<lambda>ex. bnd (log_error [JStr ''Failed to init database. Exiting.'', JErr ex]) (\<lambda>_.
                  process_exit 1))) (\<lambda>_.
     bnd (call NewDiscordBot (new_DiscordBot c)) (\<lambda>_.
     bnd (emit (On ''query.room'')) (\<lambda>_.
     bnd (emit (On ''room.event'')) (\<lambda>_.
     bnd (call BindThirdparty (bindThirdparty c)) (\<lambda>_.
     bnd (call AppserviceBegin (appservice_begin c)) (\<lambda>_.
     bnd (log_info [JStr (''Started listening on port '' @ show_num port')]) (\<lambda>_.
     try_catch
       (bnd (call DiscordbotInit (discordbot_init c)) (\<lambda>_.
        bnd (call DiscordbotRun (discordbot_run c)) (\<lambda>_.
        log_info [JStr ''Discordbot started successfully''])))
       (\<lambda>err. bnd (log_error [JErr err]) (\<lambda>_.
              bnd (log_error [JStr ''Failure during startup. Exiting'']) (\<lambda>_.
              process_exit 1)))))))))))))"

text \<open>The sections handed to \<^verbatim>\<open>usage\<close> (lines 108--117); the console prints their rendering.\<close>

definition usage_sections :: "usage_section list" where
  "usage_sections =
     [Content ''Matrix Discord Bridge'' ''The matrix appservice for discord'',
      OptionList ''Options'' commandOptions]"

definition run :: "collaborators \<Rightarrow> cli_opts \<Rightarrow> unit proc" where
  "run c opts =
     bnd (if opt_help opts then
            bnd (emit (ConsoleLog usage_sections)) (\<lambda>_.
            process_exit 0)
          else ret ()) (\<lambda>_.
     let configPath = or_str (opt_config opts) ''config.yaml'';
         registrationPath = or_str (opt_file opts) ''discord-registration.yaml''
     in
       if opt_generate_registration opts then
         bnd (existsSync registrationPath) (\<lambda>found.
           if found then throw (Error ''Not writing new registration file, file already exists'')
           else generateRegistration c opts registrationPath)
       else
         let config = new_DiscordBridgeConfig;
             port' = or_num (opt_port opts) (port (bridge config))
         in
           if \<not> truthy_num port' then
             throw (Error ''Port not given in command line or config file'')
           else
             bnd (readFileSync configPath) (\<lambda>readConfig.
             if typeof readConfig \<noteq> ''object'' then
               throw (Error ''Config is not of type object'')
             else
               bnd (call_val ApplyConfig (applyConfig c config readConfig)) (\<lambda>config.
               bnd process_env (\<lambda>e.
               bnd (call_val ApplyEnvironmentOverrides
                      (applyEnvironmentOverrides c config e)) (\<lambda>config.
               bnd (call LogConfigure (Log_Configure c)) (\<lambda>_.
               if truthy_str (roomStorePath (database config)) \<or>
                  truthy_str (userStorePath (database config))
               then
                 bnd (log_error [JStr legacy_msg]) (\<lambda>_.
                 throw (Error ''Bridge has legacy configuration options and is unable to start''))
               else
                 bnd (readFileSync registrationPath) (\<lambda>registration.
                 bnd setupLogging (\<lambda>_.
                 start_bridge c config port' registration))))))))"

text \<open>Lines 215--218: \<^verbatim>\<open>run().catch(...)\<close>, the whole program.\<close>

definition main :: "collaborators \<Rightarrow> cli_opts \<Rightarrow> unit proc" where
  "main c opts =
     try_catch (run c opts)
       (\<lambda>err. bnd (log_error [JStr ''A fatal error occurred during startup:'', JErr err]) (\<lambda>_.
              process_exit 1))"

section \<open>The two subscriptions (lines 180--197)\<close>

definition query_room_msg :: string where
  "query_room_msg =
     ''Exception thrown while handling '' @ [CHR 0x22] @ ''query.room'' @ [CHR 0x22] @ '' event''"

definition room_event_msg :: string where
  "room_event_msg =
     ''Exception thrown while handling '' @ [CHR 0x22] @ ''room.event'' @ [CHR 0x22] @ '' event''"

text \<open>The body of the \<^verbatim>\<open>try\<close> of the room-alias-query handler (lines 182--184).\<close>

definition query_room_chain ::
  "collaborators \<Rightarrow> string \<Rightarrow> (jsval \<Rightarrow> error option) \<Rightarrow> unit proc" where
  "query_room_chain c roomAlias createRoom =
     bnd (call_val (OnAliasQuery roomAlias) (roomhandler_OnAliasQuery c roomAlias))
       (\<lambda>createRoomOpts.
     bnd (call (CreateRoom createRoomOpts) (createRoom createRoomOpts)) (\<lambda>_.
     bnd (lift (property createRoomOpts ''__roomId'')) (\<lambda>roomId.
     call (OnAliasQueried roomAlias roomId) (roomhandler_OnAliasQueried c roomAlias roomId))))"

definition on_query_room ::
  "collaborators \<Rightarrow> string \<Rightarrow> (jsval \<Rightarrow> error option) \<Rightarrow> unit proc" where
  "on_query_room c roomAlias createRoom =
     try_catch (query_room_chain c roomAlias createRoom)
       (\<lambda>err. log_error [JStr query_room_msg, JErr err])"

definition on_room_event :: "collaborators \<Rightarrow> string \<Rightarrow> jsval \<Rightarrow> unit proc" where
  "on_room_event c roomId ev =
     try_catch
       (bnd (call_val (GetEntriesByMatrixId roomId) (roomStore_getEntriesByMatrixId c roomId))
          (\<lambda>entries.
        call (OnEvent ev entries) (eventProcessor_OnEvent c ev entries)))
       (\<lambda>err. log_error [JStr room_event_msg, JErr err])"

section \<open>Vocabulary of the properties\<close>

text \<open>
  \<open>precedes a b es\<close>: scanning \<open>es\<close> from the start, \<open>a\<close> is met before any \<open>b\<close>, so
  every occurrence of \<open>b\<close> has an earlier occurrence of \<open>a\<close>.
\<close>

primrec precedes :: "'a \<Rightarrow> 'a \<Rightarrow> 'a list \<Rightarrow> bool" where
  "precedes a b [] = True"
| "precedes a b (x # xs) = (x = a \<or> (x \<noteq> b \<and> precedes a b xs))"

text \<open>The log line of line 202 for a given port.\<close>

definition started_listening :: "int option \<Rightarrow> event" where
  "started_listening p = LogCall ''DiscordAS'' ''info'' [JStr (''Started listening on port '' @ show_num p)]"

text \<open>A logged value mentions a text when the text occurs in one of its strings or messages.\<close>

fun mentions :: "string \<Rightarrow> jsval \<Rightarrow> bool" where
  "mentions a (JStr s) = includes_str s a"
| "mentions a (JErr (Error m)) = includes_str m a"
| "mentions a (JArr xs) = list_ex (mentions a) xs"
| "mentions a (JObj kvs) = list_ex (mentions a) (map snd kvs)"
| "mentions a v = False"

definition logged_with :: "string \<Rightarrow> event \<Rightarrow> bool" where
  "logged_with a ev = (case ev of LogCall tag level args \<Rightarrow> list_ex (mentions a) args | _ \<Rightarrow> False)"




text \<open>The document found at the destination after an invocation of the generator.\<close>

definition artifact :: "collaborators \<Rightarrow> cli_opts \<Rightarrow> string \<Rightarrow> world \<Rightarrow> jsval" where
  "artifact c opts path w =
     (case fs (snd (generateRegistration c opts path w)) path of
        None \<Rightarrow> JUndefined
      | Some reg \<Rightarrow> reg)"

text \<open>
  \<open>wp m Q w\<close>: running \<open>m\<close> from \<open>w\<close> ends (by return, throw or exit) in a result and a
  world that satisfy \<open>Q\<close>.
\<close>

definition wp :: "'a proc \<Rightarrow> (abort + 'a \<Rightarrow> world \<Rightarrow> bool) \<Rightarrow> world \<Rightarrow> bool" where
  "wp m Q w = (case m w of (r, w') \<Rightarrow> Q r w')"

section \<open>Sample inputs\<close>

text \<open>
  Collaborators that all succeed; the \<open>i\<close>-th token is \<open>i + 1\<close> letters long, so no two
  draws agree; the configuration method copies the listen port and the first deprecated
  path from the document.
\<close>

definition sample_applyConfig :: "DiscordBridgeConfig \<Rightarrow> jsval \<Rightarrow> error + DiscordBridgeConfig" where
  "sample_applyConfig cfg doc =
     Inr (cfg\<lparr>bridge := (bridge cfg)\<lparr>port :=
                  (case field ''port'' (field ''bridge'' doc) of
                     JNum n \<Rightarrow> Some n | _ \<Rightarrow> port (bridge cfg))\<rparr>,
              database := (database cfg)\<lparr>roomStorePath :=
                  (case field ''roomStorePath'' (field ''database'' doc) of
                     JStr s \<Rightarrow> Some s | _ \<Rightarrow> roomStorePath (database cfg))\<rparr>\<rparr>)"

definition sample_collaborators :: collaborators where
  "sample_collaborators =
     \<lparr>uuid = (\<lambda>i. replicate (Suc i) (CHR ''u'')),
      applyConfig = sample_applyConfig,
      applyEnvironmentOverrides = (\<lambda>cfg e. Inr cfg),
      Log_Configure = None,
      new_DiscordStore = None,
      new_Appservice = None,
      metrics_init = None,
      store_init = None,
      new_DiscordBot = None,
      bindThirdparty = None,
      appservice_begin = None,
      discordbot_init = None,
      discordbot_run = None,
      roomhandler_OnAliasQuery = (\<lambda>a. Inr (JObj [(''__roomId'', JStr ''!room:example.org'')])),
      roomhandler_OnAliasQueried = (\<lambda>a r. None),
      roomStore_getEntriesByMatrixId = (\<lambda>r. Inr (JArr [])),
      eventProcessor_OnEvent = (\<lambda>e es. None)\<rparr>"

definition no_opts :: cli_opts where
  "no_opts =
     \<lparr>opt_config = None, opt_url = None, opt_port = None, opt_file = None,
      opt_generate_registration = False, opt_help = False\<rparr>"

definition empty_world :: world where
  "empty_world =
     \<lparr>fs = Map.empty, write_error = Map.empty, env = Map.empty, drawn = 0, logMap = {},
      trace = []\<rparr>"

text \<open>A directory holding a configuration with a listen port, and a registration.\<close>

definition sample_config_doc :: jsval where
  "sample_config_doc =
     JObj [(''bridge'', JObj [(''domain'', JStr ''example.org''), (''port'', JNum 9005)])]"

definition sample_world :: world where
  "sample_world =
     empty_world\<lparr>fs := [''config.yaml'' \<mapsto> sample_config_doc,
                         ''discord-registration.yaml'' \<mapsto> JObj [(''id'', JStr ''discord-bridge'')]]\<rparr>"

text \<open>A configuration file that holds a scalar instead of a mapping.\<close>

definition scalar_world :: world where
  "scalar_world = empty_world\<lparr>fs := [''config.yaml'' \<mapsto> JStr ''hello'']\<rparr>"

definition port_opts :: cli_opts where
  "port_opts = no_opts\<lparr>opt_port := Some 9000\<rparr>"

definition register_opts :: cli_opts where
  "register_opts =
     no_opts\<lparr>opt_generate_registration := True,
             opt_url := Some ''https://bridge.example:9000'',
             opt_file := Some ''reg.yaml''\<rparr>"

text \<open>A directory in which \<^verbatim>\<open>missing-dir\<close> does not exist.\<close>

definition no_dir_world :: world where
  "no_dir_world =
     empty_world\<lparr>write_error :=
       [''missing-dir/reg.yaml'' \<mapsto>
          Error (''ENOENT: no such file or directory, open '' @ [CHR 0x27] @
                 ''missing-dir/reg.yaml'' @ [CHR 0x27])]\<rparr>"

definition failing_store :: collaborators where
  "failing_store = sample_collaborators\<lparr>store_init := Some (Error ''database is down'')\<rparr>"

definition failing_roomhandler :: collaborators where
  "failing_roomhandler =
     sample_collaborators\<lparr>roomhandler_OnAliasQuery := (\<lambda>a. Inl (Error ''no such guild''))\<rparr>"

section \<open>Rules for running a computation\<close>

lemma wp_ret: "wp (ret x) Q w = Q (Inr x) w"
  by (simp add: wp_def ret_def)

lemma wp_throw: "wp (throw e) Q w = Q (Inl (Throw e)) w"
  by (simp add: wp_def throw_def)

lemma wp_exit: "wp (process_exit n) Q w = Q (Inl (Exit n)) w"
  by (simp add: wp_def process_exit_def)

lemma wp_emit: "wp (emit ev) Q w = Q (Inr ()) (w\<lparr>trace := trace w @ [ev]\<rparr>)"
  by (simp add: wp_def emit_def)

lemma wp_bnd:
  "wp (bnd m f) Q w =
     wp m (\<lambda>r w'. case r of Inl a \<Rightarrow> Q (Inl a) w' | Inr x \<Rightarrow> wp (f x) Q w') w"
  by (simp add: wp_def bnd_def split: prod.split sum.split)

lemma wp_try_catch:
  "wp (try_catch m h) Q w =
     wp m (\<lambda>r w'. case r of
                     Inl (Throw e) \<Rightarrow> wp (h e) Q w'
                   | Inl (Exit n) \<Rightarrow> Q (Inl (Exit n)) w'
                   | Inr x \<Rightarrow> Q (Inr x) w') w"
  by (simp add: wp_def try_catch_def split: prod.split sum.split abort.split)

lemma wp_if: "wp (if b then m1 else m2) Q w = ((b \<longrightarrow> wp m1 Q w) \<and> (\<not> b \<longrightarrow> wp m2 Q w))"
  by simp

lemma wp_call:
  "wp (call ev r) Q w =
     ((r = None \<longrightarrow> Q (Inr ()) (w\<lparr>trace := trace w @ [ev]\<rparr>)) \<and>
      (\<forall>e. r = Some e \<longrightarrow> Q (Inl (Throw e)) (w\<lparr>trace := trace w @ [ev]\<rparr>)))"
  by (cases r) (simp_all add: call_def wp_bnd wp_emit wp_ret wp_throw)

lemma wp_call_val:
  "wp (call_val ev r) Q w =
     ((\<forall>v. r = Inr v \<longrightarrow> Q (Inr v) (w\<lparr>trace := trace w @ [ev]\<rparr>)) \<and>
      (\<forall>e. r = Inl e \<longrightarrow> Q (Inl (Throw e)) (w\<lparr>trace := trace w @ [ev]\<rparr>)))"
  by (cases r) (simp_all add: call_val_def wp_bnd wp_emit wp_ret wp_throw)

lemma wp_lift:
  "wp (lift r) Q w =
     ((\<forall>v. r = Inr v \<longrightarrow> Q (Inr v) w) \<and> (\<forall>e. r = Inl e \<longrightarrow> Q (Inl (Throw e)) w))"
  by (cases r) (simp_all add: lift_def wp_ret wp_throw)

lemma wp_log_error:
  "wp (log_error args) Q w = Q (Inr ()) (w\<lparr>trace := trace w @ [LogCall ''DiscordAS'' ''error'' args]\<rparr>)"
  by (simp add: log_error_def wp_emit)

lemma wp_log_info:
  "wp (log_info args) Q w = Q (Inr ()) (w\<lparr>trace := trace w @ [LogCall ''DiscordAS'' ''info'' args]\<rparr>)"
  by (simp add: log_info_def wp_emit)

lemma wp_process_env: "wp process_env Q w = Q (Inr (env w)) w"
  by (simp add: wp_def process_env_def)

lemma wp_existsSync:
  "wp (existsSync path) Q w =
     Q (Inr (path \<in> dom (fs w))) (w\<lparr>trace := trace w @ [ExistsSync path]\<rparr>)"
  by (simp add: wp_def existsSync_def bnd_def emit_def)

lemma wp_readFileSync:
  "wp (readFileSync path) Q w =
     ((fs w path = None \<longrightarrow>
         Q (Inl (Throw (ENOENT path)))
           (w\<lparr>trace := trace w @ [ReadFileSync path]\<rparr>)) \<and>
      (\<forall>doc. fs w path = Some doc \<longrightarrow> Q (Inr doc) (w\<lparr>trace := trace w @ [ReadFileSync path]\<rparr>)))"
  by (cases "fs w path") (simp_all add: wp_def readFileSync_def bnd_def emit_def)

lemma wp_writeFileSync:
  "wp (writeFileSync path doc) Q w =
     ((write_error w path = None \<longrightarrow>
         Q (Inr ()) (w\<lparr>trace := trace w @ [WriteFileSync path doc], fs := (fs w)(path \<mapsto> doc)\<rparr>)) \<and>
      (\<forall>e. write_error w path = Some e \<longrightarrow>
         Q (Inl (Throw e)) (w\<lparr>trace := trace w @ [WriteFileSync path doc]\<rparr>)))"
  by (cases "write_error w path") (simp_all add: wp_def writeFileSync_def bnd_def emit_def)

lemma wp_uuid_v4:
  "wp (uuid_v4 c) Q w =
     Q (Inr (uuid c (drawn w))) (w\<lparr>drawn := Suc (drawn w), trace := trace w @ [Uuid]\<rparr>)"
  by (simp add: wp_def uuid_v4_def)

lemma wp_setupLogging:
  "wp setupLogging Q w = Q (Inr ()) (w\<lparr>logMap := {}, trace := trace w @ [SetLogger]\<rparr>)"
  by (simp add: wp_def setupLogging_def)

lemma wp_get_logger:
  "wp (get_logger tag) Q w =
     ((tag \<in> logMap w \<longrightarrow> Q (Inr ()) w) \<and>
      (tag \<notin> logMap w \<longrightarrow>
         Q (Inr ()) (w\<lparr>logMap := insert tag (logMap w), trace := trace w @ [NewLog tag]\<rparr>)))"
  by (simp add: wp_def get_logger_def)

text \<open>The continuation of a computation is looked at only once the computation has run.\<close>

lemma wp_cong: "m = m' \<Longrightarrow> w = w' \<Longrightarrow> wp m Q w = wp m' Q w'"
  by simp

lemmas wp_rules =
  wp_ret wp_throw wp_exit wp_emit wp_bnd wp_try_catch wp_if wp_call wp_call_val wp_lift
  wp_log_error wp_log_info wp_process_env wp_existsSync wp_readFileSync wp_writeFileSync
  wp_uuid_v4 wp_setupLogging wp_get_logger

lemma wp_result: "wp m (\<lambda>r w'. P r w') w \<Longrightarrow> P (fst (m w)) (snd (m w))"
  by (simp add: wp_def split: prod.splits)

lemma wp_run_eq: "wp m (\<lambda>r w'. r = r0 \<and> w' = w0) w \<Longrightarrow> m w = (r0, w0)"
  by (simp add: wp_def split: prod.splits)

section \<open>The substring test\<close>

lemma take_length_eq_iff: "take (length t) xs = t \<longleftrightarrow> (\<exists>q. xs = t @ q)"
proof
  assume "take (length t) xs = t"
  then have "xs = t @ drop (length t) xs"
    by (metis append_take_drop_id)
  then show "\<exists>q. xs = t @ q" ..
next
  assume "\<exists>q. xs = t @ q"
  then show "take (length t) xs = t" by auto
qed

text \<open>\<open>includes_str\<close> is the substring test.\<close>

lemma includes_str_iff: "includes_str s t \<longleftrightarrow> (\<exists>p q. s = p @ t @ q)"
proof (induction s)
  case Nil
  then show ?case by auto
next
  case (Cons c cs)
  show ?case
  proof
    assume "includes_str (c # cs) t"
    then consider "take (length t) (c # cs) = t" | "includes_str cs t" by auto
    then show "\<exists>p q. c # cs = p @ t @ q"
    proof cases
      case 1
      then obtain q where "c # cs = t @ q" unfolding take_length_eq_iff ..
      then have "c # cs = [] @ t @ q" by simp
      then show ?thesis by blast
    next
      case 2
      with Cons.IH obtain p q where "cs = p @ t @ q" by auto
      then have "c # cs = (c # p) @ t @ q" by simp
      then show ?thesis by blast
    qed
  next
    assume "\<exists>p q. c # cs = p @ t @ q"
    then obtain p q where pq: "c # cs = p @ t @ q" by auto
    show "includes_str (c # cs) t"
    proof (cases p)
      case Nil
      with pq have "take (length t) (c # cs) = t"
        unfolding take_length_eq_iff by auto
      then show ?thesis by simp
    next
      case (Cons a p')
      with pq have "cs = p' @ t @ q" by simp
      with Cons.IH have "includes_str cs t" by blast
      then show ?thesis by simp
    qed
  qed
qed

section \<open>The help flag\<close>

text \<open>
  C10.  With the help flag the program prints the usage and exits with status 0; that one
  console line is all it does.  The final world is the initial one with this event
  added, so no existence check runs, no token is drawn and no file is written, whatever
  the other options are.
\<close>

theorem help_exits_before_other_options:
  assumes "opt_help opts"
  shows "run c opts w = (Inl (Exit 0), w\<lparr>trace := trace w @ [ConsoleLog usage_sections]\<rparr>)
       \<and> main c opts w = (Inl (Exit 0), w\<lparr>trace := trace w @ [ConsoleLog usage_sections]\<rparr>)"
proof -
  have "wp (run c opts)
          (\<lambda>r w'. r = Inl (Exit 0) \<and> w' = w\<lparr>trace := trace w @ [ConsoleLog usage_sections]\<rparr>) w"
    using assms by (simp add: run_def wp_rules cong: wp_cong)
  then have r: "run c opts w = (Inl (Exit 0), w\<lparr>trace := trace w @ [ConsoleLog usage_sections]\<rparr>)"
    by (rule wp_run_eq)
  then have "main c opts w = (Inl (Exit 0), w\<lparr>trace := trace w @ [ConsoleLog usage_sections]\<rparr>)"
    by (simp add: main_def try_catch_def)
  with r show ?thesis by simp
qed

theorem help_exits_before_other_options_witness:
  "opt_help (register_opts\<lparr>opt_help := True\<rparr>)
   \<and> opt_generate_registration (register_opts\<lparr>opt_help := True\<rparr>)
   \<and> fst (main sample_collaborators (register_opts\<lparr>opt_help := True\<rparr>) empty_world) = Inl (Exit 0)
   \<and> trace (snd (main sample_collaborators (register_opts\<lparr>opt_help := True\<rparr>) empty_world))
       = [ConsoleLog usage_sections]
   \<and> fs (snd (main sample_collaborators (register_opts\<lparr>opt_help := True\<rparr>) empty_world)) = Map.empty
   \<and> drawn (snd (main sample_collaborators (register_opts\<lparr>opt_help := True\<rparr>) empty_world)) = 0"
  using help_exits_before_other_options
    [of "register_opts\<lparr>opt_help := True\<rparr>" sample_collaborators empty_world]
  by (simp add: register_opts_def no_opts_def empty_world_def)

section \<open>Registration generation\<close>

text \<open>
  C4.  When the generator is asked for and a file exists at the destination, \<open>run\<close>
  throws the already-exists error right after the existence check: no token is drawn,
  nothing is written, the file system is the one it started with.
\<close>

theorem existing_registration_is_kept:
  assumes "\<not> opt_help opts" and "opt_generate_registration opts"
    and "or_str (opt_file opts) ''discord-registration.yaml'' \<in> dom (fs w)"
  shows "fst (run c opts w) =
           Inl (Throw (Error ''Not writing new registration file, file already exists''))
       \<and> fs (snd (run c opts w)) = fs w
       \<and> drawn (snd (run c opts w)) = drawn w
       \<and> trace (snd (run c opts w)) =
           trace w @ [ExistsSync (or_str (opt_file opts) ''discord-registration.yaml'')]"
proof -
  have "wp (run c opts)
          (\<lambda>r w'. r = Inl (Throw (Error ''Not writing new registration file, file already exists''))
                 \<and> fs w' = fs w \<and> drawn w' = drawn w
                 \<and> trace w' =
                     trace w @ [ExistsSync (or_str (opt_file opts) ''discord-registration.yaml'')]) w"
    using assms by (simp add: run_def Let_def wp_rules cong: wp_cong)
  from wp_result [OF this] show ?thesis .
qed

theorem existing_registration_is_kept_witness:
  "\<not> opt_help register_opts \<and> opt_generate_registration register_opts
   \<and> or_str (opt_file register_opts) ''discord-registration.yaml''
        \<in> dom (fs (empty_world\<lparr>fs := [''reg.yaml'' \<mapsto> JStr ''kept'']\<rparr>))
   \<and> fst (run sample_collaborators register_opts (empty_world\<lparr>fs := [''reg.yaml'' \<mapsto> JStr ''kept'']\<rparr>))
       = Inl (Throw (Error ''Not writing new registration file, file already exists''))
   \<and> fs (snd (run sample_collaborators register_opts
              (empty_world\<lparr>fs := [''reg.yaml'' \<mapsto> JStr ''kept'']\<rparr>))) ''reg.yaml'' = Some (JStr ''kept'')
   \<and> drawn (snd (run sample_collaborators register_opts
                 (empty_world\<lparr>fs := [''reg.yaml'' \<mapsto> JStr ''kept'']\<rparr>))) = 0"
  using existing_registration_is_kept
    [of register_opts "empty_world\<lparr>fs := [''reg.yaml'' \<mapsto> JStr ''kept'']\<rparr>" sample_collaborators]
  by (simp add: register_opts_def no_opts_def empty_world_def or_str_def)

text \<open>
  What the generator does once the flag is given, the URL is non-empty and nothing is at
  the destination: both tokens are drawn, and then the write decides.  If the write
  succeeds \<open>run\<close> returns and the destination holds the registration; if the write throws,
  \<open>run\<close> throws the same error and no file has been created.
\<close>

lemma run_generates:
  assumes "\<not> opt_help opts" and "opt_generate_registration opts"
    and "opt_url opts = Some u" and "u \<noteq> []"
    and "or_str (opt_file opts) ''discord-registration.yaml'' \<notin> dom (fs w)"
  shows "wp (run c opts)
          (\<lambda>r w'.
             (write_error w (or_str (opt_file opts) ''discord-registration.yaml'') = None \<longrightarrow>
                r = Inr ()
              \<and> (\<exists>reg. fs w' (or_str (opt_file opts) ''discord-registration.yaml'') = Some reg
                   \<and> field ''sender_localpart'' reg = JStr ''_discord_bot''
                   \<and> field ''aliases'' (field ''namespaces'' reg) =
                       JArr [JObj [(''exclusive'', JBool True), (''regex'', JStr ''#_discord_.*'')]]
                   \<and> field ''users'' (field ''namespaces'' reg) =
                       JArr [JObj [(''exclusive'', JBool True), (''regex'', JStr ''@_discord_.*'')]]
                   \<and> field ''rooms'' (field ''namespaces'' reg) = JArr []
                   \<and> field ''protocols'' reg = JArr [JStr ''discord'']
                   \<and> field ''url'' reg = JStr u))
           \<and> (\<forall>e. write_error w (or_str (opt_file opts) ''discord-registration.yaml'') = Some e \<longrightarrow>
                r = Inl (Throw e) \<and> fs w' = fs w \<and> drawn w' = Suc (Suc (drawn w)))) w"
  using assms
  by (simp add: run_def Let_def generateRegistration_def truthy_str_def of_str_def field_def
      wp_rules cong: wp_cong)

lemma run_generate_write_fails:
  assumes "\<not> opt_help opts" and "opt_generate_registration opts"
    and "opt_url opts = Some u" and "u \<noteq> []"
    and "or_str (opt_file opts) ''discord-registration.yaml'' \<notin> dom (fs w)"
    and "write_error w (or_str (opt_file opts) ''discord-registration.yaml'') = Some e"
  shows "fst (run c opts w) = Inl (Throw e)
       \<and> fs (snd (run c opts w)) = fs w
       \<and> drawn (snd (run c opts w)) = Suc (Suc (drawn w))"
  using wp_result [OF run_generates [OF assms(1-5), of c]] assms(6) by simp

text \<open>
  C5.  A successful generation, with a non-empty URL and nothing at the destination,
  leaves at the destination a document with the fixed sender, namespaces and protocol
  list, and with the URL that was given.  Success is the hypothesis: \<open>run\<close> returns.
\<close>

theorem generated_registration_shape:
  assumes "\<not> opt_help opts" and "opt_generate_registration opts"
    and "opt_url opts = Some u" and "u \<noteq> []"
    and "or_str (opt_file opts) ''discord-registration.yaml'' \<notin> dom (fs w)"
    and "fst (run c opts w) = Inr ()"
  shows "\<exists>reg. fs (snd (run c opts w)) (or_str (opt_file opts) ''discord-registration.yaml'') = Some reg
       \<and> field ''sender_localpart'' reg = JStr ''_discord_bot''
       \<and> field ''aliases'' (field ''namespaces'' reg) =
           JArr [JObj [(''exclusive'', JBool True), (''regex'', JStr ''#_discord_.*'')]]
       \<and> field ''users'' (field ''namespaces'' reg) =
           JArr [JObj [(''exclusive'', JBool True), (''regex'', JStr ''@_discord_.*'')]]
       \<and> field ''rooms'' (field ''namespaces'' reg) = JArr []
       \<and> field ''protocols'' reg = JArr [JStr ''discord'']
       \<and> field ''url'' reg = JStr u"
proof (cases "write_error w (or_str (opt_file opts) ''discord-registration.yaml'')")
  case None
  with wp_result [OF run_generates [OF assms(1-5), of c]] show ?thesis by simp
next
  case (Some e)
  from run_generate_write_fails [OF assms(1-5) Some, of c] assms(6) show ?thesis by simp
qed

lemma sample_generation_succeeds:
  "fst (run sample_collaborators register_opts empty_world) = Inr ()"
proof -
  have "wp (run sample_collaborators register_opts) (\<lambda>r w'. r = Inr ()) empty_world"
    by (simp add: run_def Let_def generateRegistration_def truthy_str_def of_str_def or_str_def
        register_opts_def no_opts_def empty_world_def wp_rules cong: wp_cong)
  from wp_result [OF this] show ?thesis .
qed

theorem generated_registration_shape_witness:
  "\<not> opt_help register_opts \<and> opt_generate_registration register_opts
   \<and> opt_url register_opts = Some ''https://bridge.example:9000''
   \<and> ''https://bridge.example:9000'' \<noteq> []
   \<and> or_str (opt_file register_opts) ''discord-registration.yaml'' \<notin> dom (fs empty_world)
   \<and> fst (run sample_collaborators register_opts empty_world) = Inr ()
   \<and> (\<exists>reg. fs (snd (run sample_collaborators register_opts empty_world)) ''reg.yaml'' = Some reg
        \<and> field ''sender_localpart'' reg = JStr ''_discord_bot''
        \<and> field ''aliases'' (field ''namespaces'' reg) =
            JArr [JObj [(''exclusive'', JBool True), (''regex'', JStr ''#_discord_.*'')]]
        \<and> field ''users'' (field ''namespaces'' reg) =
            JArr [JObj [(''exclusive'', JBool True), (''regex'', JStr ''@_discord_.*'')]]
        \<and> field ''url'' reg = JStr ''https://bridge.example:9000'')"
proof -
  have h: "\<not> opt_help register_opts" "opt_generate_registration register_opts"
    "opt_url register_opts = Some ''https://bridge.example:9000''"
    "''https://bridge.example:9000'' \<noteq> []"
    "or_str (opt_file register_opts) ''discord-registration.yaml'' \<notin> dom (fs empty_world)"
    by (simp_all add: register_opts_def no_opts_def empty_world_def or_str_def)
  have p: "or_str (opt_file register_opts) ''discord-registration.yaml'' = ''reg.yaml''"
    by (simp add: register_opts_def no_opts_def or_str_def)
  from generated_registration_shape [OF h sample_generation_succeeds]
  obtain reg where
    "fs (snd (run sample_collaborators register_opts empty_world)) ''reg.yaml'' = Some reg"
    "field ''sender_localpart'' reg = JStr ''_discord_bot''"
    "field ''aliases'' (field ''namespaces'' reg) =
       JArr [JObj [(''exclusive'', JBool True), (''regex'', JStr ''#_discord_.*'')]]"
    "field ''users'' (field ''namespaces'' reg) =
       JArr [JObj [(''exclusive'', JBool True), (''regex'', JStr ''@_discord_.*'')]]"
    "field ''url'' reg = JStr ''https://bridge.example:9000''"
    unfolding p by blast
  with h sample_generation_succeeds show ?thesis by blast
qed

text \<open>
  With the destination in a directory that does not exist the write throws after both
  tokens have been drawn: the program ends with exit status 1 and no file.
\<close>

lemma generation_into_missing_directory:
  "fst (main sample_collaborators (register_opts\<lparr>opt_file := Some ''missing-dir/reg.yaml''\<rparr>)
          no_dir_world) = Inl (Exit 1)
   \<and> fs (snd (main sample_collaborators (register_opts\<lparr>opt_file := Some ''missing-dir/reg.yaml''\<rparr>)
          no_dir_world)) = Map.empty
   \<and> drawn (snd (main sample_collaborators (register_opts\<lparr>opt_file := Some ''missing-dir/reg.yaml''\<rparr>)
          no_dir_world)) = 2"
proof -
  have "wp (main sample_collaborators (register_opts\<lparr>opt_file := Some ''missing-dir/reg.yaml''\<rparr>))
          (\<lambda>r w'. r = Inl (Exit 1) \<and> fs w' = Map.empty \<and> drawn w' = 2) no_dir_world"
    by (simp add: main_def run_def Let_def generateRegistration_def truthy_str_def of_str_def
        or_str_def register_opts_def no_opts_def no_dir_world_def empty_world_def
        wp_rules cong: wp_cong)
  from wp_result [OF this] show ?thesis .
qed

text \<open>The tokens of a successful invocation are the next two draws of the token source.\<close>

lemma generateRegistration_tokens:
  assumes "fst (generateRegistration c opts path w) = Inr ()"
  shows "field ''as_token'' (artifact c opts path w) = JStr (uuid c (drawn w))
       \<and> field ''hs_token'' (artifact c opts path w) = JStr (uuid c (Suc (drawn w)))
       \<and> drawn (snd (generateRegistration c opts path w)) = Suc (Suc (drawn w))"
proof -
  have "wp (generateRegistration c opts path)
          (\<lambda>r w'. r = Inr () \<longrightarrow>
                   field ''as_token'' (case fs w' path of None \<Rightarrow> JUndefined | Some reg \<Rightarrow> reg)
                     = JStr (uuid c (drawn w))
                 \<and> field ''hs_token'' (case fs w' path of None \<Rightarrow> JUndefined | Some reg \<Rightarrow> reg)
                     = JStr (uuid c (Suc (drawn w)))
                 \<and> drawn w' = Suc (Suc (drawn w))) w"
    by (simp add: generateRegistration_def field_def wp_rules cong: wp_cong)
  from wp_result [OF this] assms show ?thesis by (simp add: artifact_def)
qed

text \<open>
  C9.  Under the assumption that the token source never yields the same value twice, the
  tokens of two successful invocations differ, the second invocation being any one that
  starts after the first has made its draws.  The two tokens of one artifact are two
  separate, consecutive draws, so they differ as well.
\<close>

theorem registration_tokens_fresh:
  assumes "inj (uuid c)"
    and "fst (generateRegistration c opts1 path1 w1) = Inr ()"
    and "fst (generateRegistration c opts2 path2 w2) = Inr ()"
    and "drawn (snd (generateRegistration c opts1 path1 w1)) \<le> drawn w2"
  shows "field ''as_token'' (artifact c opts1 path1 w1) \<noteq> field ''as_token'' (artifact c opts2 path2 w2)
       \<and> field ''hs_token'' (artifact c opts1 path1 w1) \<noteq> field ''hs_token'' (artifact c opts2 path2 w2)
       \<and> field ''as_token'' (artifact c opts1 path1 w1) = JStr (uuid c (drawn w1))
       \<and> field ''hs_token'' (artifact c opts1 path1 w1) = JStr (uuid c (Suc (drawn w1)))
       \<and> field ''as_token'' (artifact c opts1 path1 w1) \<noteq> field ''hs_token'' (artifact c opts1 path1 w1)"
proof -
  note t1 = generateRegistration_tokens [OF assms(2)]
  note t2 = generateRegistration_tokens [OF assms(3)]
  from t1 assms(4) have later: "Suc (Suc (drawn w1)) \<le> drawn w2" by simp
  have distinct: "uuid c i \<noteq> uuid c j" if "i \<noteq> j" for i j
    using assms(1) that by (auto dest: injD)
  from later have "uuid c (drawn w1) \<noteq> uuid c (drawn w2)"
    and "uuid c (Suc (drawn w1)) \<noteq> uuid c (Suc (drawn w2))"
    and "uuid c (drawn w1) \<noteq> uuid c (Suc (drawn w1))"
    by (auto intro!: distinct)
  with t1 t2 show ?thesis by simp
qed

lemma sample_uuid_inj: "inj (uuid sample_collaborators)"
proof (rule injI)
  fix i j :: nat
  assume "uuid sample_collaborators i = uuid sample_collaborators j"
  then have "length (replicate (Suc i) (CHR ''u'')) = length (replicate (Suc j) (CHR ''u''))"
    by (simp add: sample_collaborators_def)
  then show "i = j" by simp
qed

lemma sample_generateRegistration_succeeds:
  assumes "write_error w = Map.empty"
  shows "fst (generateRegistration sample_collaborators register_opts path w) = Inr ()"
proof -
  have "wp (generateRegistration sample_collaborators register_opts path) (\<lambda>r w'. r = Inr ()) w"
    using assms
    by (simp add: generateRegistration_def truthy_str_def register_opts_def no_opts_def
        wp_rules cong: wp_cong)
  from wp_result [OF this] show ?thesis .
qed

lemma generateRegistration_write_error:
  "write_error (snd (generateRegistration c opts path w)) = write_error w"
proof -
  have "wp (generateRegistration c opts path) (\<lambda>r w'. write_error w' = write_error w) w"
    by (simp add: generateRegistration_def wp_rules cong: wp_cong)
  from wp_result [OF this] show ?thesis .
qed

theorem registration_tokens_fresh_witness:
  "inj (uuid sample_collaborators)
   \<and> fst (generateRegistration sample_collaborators register_opts ''a.yaml'' empty_world) = Inr ()
   \<and> fst (generateRegistration sample_collaborators register_opts ''b.yaml''
          (snd (generateRegistration sample_collaborators register_opts ''a.yaml'' empty_world))) = Inr ()
   \<and> drawn (snd (generateRegistration sample_collaborators register_opts ''a.yaml'' empty_world))
        \<le> drawn (snd (generateRegistration sample_collaborators register_opts ''a.yaml'' empty_world))
   \<and> field ''as_token'' (artifact sample_collaborators register_opts ''a.yaml'' empty_world) = JStr ''u''
   \<and> field ''hs_token'' (artifact sample_collaborators register_opts ''a.yaml'' empty_world) = JStr ''uu''
   \<and> field ''as_token'' (artifact sample_collaborators register_opts ''a.yaml'' empty_world)
        \<noteq> field ''as_token'' (artifact sample_collaborators register_opts ''b.yaml''
              (snd (generateRegistration sample_collaborators register_opts ''a.yaml'' empty_world)))
   \<and> field ''hs_token'' (artifact sample_collaborators register_opts ''a.yaml'' empty_world)
        \<noteq> field ''hs_token'' (artifact sample_collaborators register_opts ''b.yaml''
              (snd (generateRegistration sample_collaborators register_opts ''a.yaml'' empty_world)))"
proof -
  have e: "write_error empty_world = Map.empty"
    by (simp add: empty_world_def)
  have s1: "fst (generateRegistration sample_collaborators register_opts ''a.yaml'' empty_world) = Inr ()"
    by (rule sample_generateRegistration_succeeds [OF e])
  have s2: "fst (generateRegistration sample_collaborators register_opts ''b.yaml''
          (snd (generateRegistration sample_collaborators register_opts ''a.yaml'' empty_world))) = Inr ()"
    by (rule sample_generateRegistration_succeeds) (simp add: generateRegistration_write_error e)
  have d: "drawn empty_world = 0"
    by (simp add: empty_world_def)
  have s: "uuid sample_collaborators 0 = ''u''" "uuid sample_collaborators (Suc 0) = ''uu''"
    by (simp_all add: sample_collaborators_def)
  have l: "drawn (snd (generateRegistration sample_collaborators register_opts ''a.yaml'' empty_world))
        \<le> drawn (snd (generateRegistration sample_collaborators register_opts ''a.yaml'' empty_world))"
    by simp
  note fresh = registration_tokens_fresh [OF sample_uuid_inj s1 s2 l]
  from fresh d s
  have c: "field ''as_token'' (artifact sample_collaborators register_opts ''a.yaml'' empty_world) = JStr ''u''"
    "field ''hs_token'' (artifact sample_collaborators register_opts ''a.yaml'' empty_world) = JStr ''uu''"
    by simp_all
  from fresh sample_uuid_inj s1 s2 l c show ?thesis by blast
qed

section \<open>Port resolution and the order of the checks\<close>

text \<open>
  The port is resolved on lines 131--135 from the command line and from the configuration
  object as it is constructed, before the configuration file is read (line 136).  Without a
  usable port on the command line \<open>run\<close> throws at once and touches nothing.
\<close>

lemma run_without_cli_port:
  assumes "\<not> opt_help opts" and "\<not> opt_generate_registration opts"
    and "\<not> truthy_num (opt_port opts)"
  shows "run c opts w =
           (Inl (Throw (Error ''Port not given in command line or config file'')), w)"
proof -
  have "wp (run c opts)
          (\<lambda>r w'. r = Inl (Throw (Error ''Port not given in command line or config file''))
                 \<and> w' = w) w"
    using assms
    by (simp add: run_def Let_def or_num_def new_DiscordBridgeConfig_def truthy_num_def
        wp_rules cong: wp_cong)
  then show ?thesis by (rule wp_run_eq)
qed

lemma main_of_throw:
  assumes "run c opts w = (Inl (Throw e), w')"
  shows "main c opts w =
           (Inl (Exit 1),
            w'\<lparr>trace := trace w' @
               [LogCall ''DiscordAS'' ''error''
                  [JStr ''A fatal error occurred during startup:'', JErr e]]\<rparr>)"
  using assms by (simp add: main_def try_catch_def bnd_def log_error_def emit_def process_exit_def)

text \<open>
  C1.  The claim fails on the code: the configuration file of the sample directory gives
  the listen port 9005, no port is given on the command line, and the program ends with
  the missing-port error and exit status 1, whatever the collaborators do.
\<close>

theorem config_file_port_is_not_used:
  "fs sample_world ''config.yaml'' = Some sample_config_doc
   \<and> field ''port'' (field ''bridge'' sample_config_doc) = JNum 9005
   \<and> opt_port no_opts = None
   \<and> run c no_opts sample_world =
       (Inl (Throw (Error ''Port not given in command line or config file'')), sample_world)
   \<and> fst (main c no_opts sample_world) = Inl (Exit 1)
   \<and> trace (snd (main c no_opts sample_world)) =
       [LogCall ''DiscordAS'' ''error''
          [JStr ''A fatal error occurred during startup:'',
           JErr (Error ''Port not given in command line or config file'')]]"
proof -
  have r: "run c no_opts sample_world =
      (Inl (Throw (Error ''Port not given in command line or config file'')), sample_world)"
    by (rule run_without_cli_port) (simp_all add: no_opts_def truthy_num_def)
  have "fs sample_world ''config.yaml'' = Some sample_config_doc"
    by (simp add: sample_world_def empty_world_def)
  moreover have "field ''port'' (field ''bridge'' sample_config_doc) = JNum 9005"
    by (simp add: sample_config_doc_def field_def)
  moreover have "opt_port no_opts = None"
    by (simp add: no_opts_def)
  moreover have "trace sample_world = []"
    by (simp add: sample_world_def empty_world_def)
  ultimately show ?thesis
    using r main_of_throw [OF r] by simp
qed

text \<open>
  C2.  The claim fails on the code: the port check runs first, before the document is read.
  With a configuration file that holds a scalar and no port on the command line the error
  is the missing-port one and the file is never read; the not-an-object error shows only
  once a port is given.
\<close>

theorem port_is_checked_before_document:
  "fs scalar_world ''config.yaml'' = Some (JStr ''hello'')
   \<and> typeof (JStr ''hello'') = ''string''
   \<and> run c no_opts scalar_world =
       (Inl (Throw (Error ''Port not given in command line or config file'')), scalar_world)
   \<and> trace scalar_world = []
   \<and> run c port_opts scalar_world =
       (Inl (Throw (Error ''Config is not of type object'')),
        scalar_world\<lparr>trace := [ReadFileSync ''config.yaml'']\<rparr>)"
proof -
  have r: "run c no_opts scalar_world =
      (Inl (Throw (Error ''Port not given in command line or config file'')), scalar_world)"
    by (rule run_without_cli_port) (simp_all add: no_opts_def truthy_num_def)
  have "wp (run c port_opts)
          (\<lambda>r w'. r = Inl (Throw (Error ''Config is not of type object''))
                 \<and> w' = scalar_world\<lparr>trace := [ReadFileSync ''config.yaml'']\<rparr>) scalar_world"
    by (simp add: run_def Let_def or_num_def or_str_def truthy_num_def port_opts_def no_opts_def
        scalar_world_def empty_world_def wp_rules cong: wp_cong)
  then have p: "run c port_opts scalar_world =
      (Inl (Throw (Error ''Config is not of type object'')),
       scalar_world\<lparr>trace := [ReadFileSync ''config.yaml'']\<rparr>)"
    by (rule wp_run_eq)
  have "fs scalar_world ''config.yaml'' = Some (JStr ''hello'')" "trace scalar_world = []"
    by (simp_all add: scalar_world_def empty_world_def)
  with r p show ?thesis by simp
qed


section \<open>The startup sequence\<close>

lemma precedes_before:
  assumes "a \<noteq> b" and "precedes a b (pre @ b # post)"
  shows "a \<in> set pre"
  using assms by (induction pre) auto

lemma main_subscribes_first:
  assumes "trace w = []"
  shows "wp (main c opts)
           (\<lambda>r w'. precedes (On ''query.room'') AppserviceBegin (trace w')
                  \<and> precedes (On ''room.event'') AppserviceBegin (trace w')) w"
  using assms
  by (simp add: main_def run_def start_bridge_def generateRegistration_def Let_def wp_rules
      cong: wp_cong)

lemma sample_startup:
  "fst (main sample_collaborators port_opts sample_world) = Inr ()
   \<and> trace (snd (main sample_collaborators port_opts sample_world)) =
       [ReadFileSync ''config.yaml'', ApplyConfig, ApplyEnvironmentOverrides, LogConfigure,
        ReadFileSync ''discord-registration.yaml'', SetLogger, NewDiscordStore,
        NewAppservice ''0.0.0.0'' None None (Some 9000) (JObj [(''id'', JStr ''discord-bridge'')]),
        StoreInit, NewDiscordBot, On ''query.room'', On ''room.event'', BindThirdparty]
       @ AppserviceBegin #
       [LogCall ''DiscordAS'' ''info'' [JStr ''Started listening on port 9000''],
        DiscordbotInit, DiscordbotRun,
        LogCall ''DiscordAS'' ''info'' [JStr ''Discordbot started successfully'']]"
proof -
  have "wp (main sample_collaborators port_opts)
          (\<lambda>r w'. r = Inr () \<and> trace w' =
             [ReadFileSync ''config.yaml'', ApplyConfig, ApplyEnvironmentOverrides, LogConfigure,
              ReadFileSync ''discord-registration.yaml'', SetLogger, NewDiscordStore,
              NewAppservice ''0.0.0.0'' None None (Some 9000)
                (JObj [(''id'', JStr ''discord-bridge'')]),
              StoreInit, NewDiscordBot, On ''query.room'', On ''room.event'', BindThirdparty]
             @ AppserviceBegin #
             [LogCall ''DiscordAS'' ''info'' [JStr ''Started listening on port 9000''],
              DiscordbotInit, DiscordbotRun,
              LogCall ''DiscordAS'' ''info'' [JStr ''Discordbot started successfully'']])
          sample_world"
    by (simp add: main_def run_def start_bridge_def Let_def wp_rules
        port_opts_def no_opts_def sample_world_def empty_world_def sample_config_doc_def
        sample_collaborators_def sample_applyConfig_def new_DiscordBridgeConfig_def
        field_def or_num_def or_str_def truthy_num_def truthy_str_def show_num_def show_nat.simps
        cong: wp_cong)
  from wp_result [OF this] show ?thesis .
qed

text \<open>
  C8.  In every run of the program, wherever the transport's start occurs in the sequence
  of calls, both subscriptions have been installed earlier.
\<close>

theorem subscriptions_before_transport_start:
  assumes "trace w = []"
    and "trace (snd (main c opts w)) = pre @ AppserviceBegin # post"
  shows "On ''query.room'' \<in> set pre \<and> On ''room.event'' \<in> set pre"
proof -
  from wp_result [OF main_subscribes_first [OF assms(1), of c opts]] assms(2)
  have "precedes (On ''query.room'') AppserviceBegin (pre @ AppserviceBegin # post)"
    and "precedes (On ''room.event'') AppserviceBegin (pre @ AppserviceBegin # post)"
    by simp_all
  then show ?thesis
    by (auto dest: precedes_before [rotated])
qed

theorem subscriptions_before_transport_start_witness:
  "trace sample_world = []
   \<and> trace (snd (main sample_collaborators port_opts sample_world)) =
       [ReadFileSync ''config.yaml'', ApplyConfig, ApplyEnvironmentOverrides, LogConfigure,
        ReadFileSync ''discord-registration.yaml'', SetLogger, NewDiscordStore,
        NewAppservice ''0.0.0.0'' None None (Some 9000) (JObj [(''id'', JStr ''discord-bridge'')]),
        StoreInit, NewDiscordBot, On ''query.room'', On ''room.event'', BindThirdparty]
       @ AppserviceBegin #
       [LogCall ''DiscordAS'' ''info'' [JStr ''Started listening on port 9000''],
        DiscordbotInit, DiscordbotRun,
        LogCall ''DiscordAS'' ''info'' [JStr ''Discordbot started successfully'']]
   \<and> On ''query.room'' \<in> set
       [ReadFileSync ''config.yaml'', ApplyConfig, ApplyEnvironmentOverrides, LogConfigure,
        ReadFileSync ''discord-registration.yaml'', SetLogger, NewDiscordStore,
        NewAppservice ''0.0.0.0'' None None (Some 9000) (JObj [(''id'', JStr ''discord-bridge'')]),
        StoreInit, NewDiscordBot, On ''query.room'', On ''room.event'', BindThirdparty]
   \<and> On ''room.event'' \<in> set
       [ReadFileSync ''config.yaml'', ApplyConfig, ApplyEnvironmentOverrides, LogConfigure,
        ReadFileSync ''discord-registration.yaml'', SetLogger, NewDiscordStore,
        NewAppservice ''0.0.0.0'' None None (Some 9000) (JObj [(''id'', JStr ''discord-bridge'')]),
        StoreInit, NewDiscordBot, On ''query.room'', On ''room.event'', BindThirdparty]"
proof -
  have e: "trace sample_world = []"
    by (simp add: sample_world_def empty_world_def)
  note t = conjunct2 [OF sample_startup]
  from subscriptions_before_transport_start [OF e t] e t show ?thesis by blast
qed

lemma main_store_init_fails:
  assumes "store_init c = Some ex" and "trace w = []"
  shows "wp (main c opts)
           (\<lambda>r w'. AppserviceBegin \<notin> set (trace w')
                  \<and> (\<forall>p. started_listening p \<notin> set (trace w'))
                  \<and> (StoreInit \<in> set (trace w') \<longrightarrow>
                        r = Inl (Exit 1)
                      \<and> last (trace w') =
                          LogCall ''DiscordAS'' ''error''
                            [JStr ''Failed to init database. Exiting.'', JErr ex])) w"
  using assms
  by (simp add: main_def run_def start_bridge_def generateRegistration_def Let_def
      started_listening_def wp_rules cong: wp_cong)

text \<open>
  C6.  When the store's initialisation fails, no run of the program starts the transport
  or logs that it listens; and a run that reaches the initialisation ends with exit
  status 1, the failure being the last thing it logs, as an error.
\<close>

theorem store_init_failure_is_fatal:
  assumes "store_init c = Some ex" and "trace w = []"
  shows "AppserviceBegin \<notin> set (trace (snd (main c opts w)))
       \<and> (\<forall>p. started_listening p \<notin> set (trace (snd (main c opts w))))
       \<and> (StoreInit \<in> set (trace (snd (main c opts w))) \<longrightarrow>
             fst (main c opts w) = Inl (Exit 1)
           \<and> last (trace (snd (main c opts w))) =
               LogCall ''DiscordAS'' ''error''
                 [JStr ''Failed to init database. Exiting.'', JErr ex])"
  using wp_result [OF main_store_init_fails [OF assms, of opts]] .

lemma failing_store_startup:
  "trace (snd (main failing_store port_opts sample_world)) =
       [ReadFileSync ''config.yaml'', ApplyConfig, ApplyEnvironmentOverrides, LogConfigure,
        ReadFileSync ''discord-registration.yaml'', SetLogger, NewDiscordStore,
        NewAppservice ''0.0.0.0'' None None (Some 9000) (JObj [(''id'', JStr ''discord-bridge'')]),
        StoreInit,
        LogCall ''DiscordAS'' ''error''
          [JStr ''Failed to init database. Exiting.'', JErr (Error ''database is down'')]]"
proof -
  have "wp (main failing_store port_opts)
          (\<lambda>r w'. trace w' =
             [ReadFileSync ''config.yaml'', ApplyConfig, ApplyEnvironmentOverrides, LogConfigure,
              ReadFileSync ''discord-registration.yaml'', SetLogger, NewDiscordStore,
              NewAppservice ''0.0.0.0'' None None (Some 9000)
                (JObj [(''id'', JStr ''discord-bridge'')]),
              StoreInit,
              LogCall ''DiscordAS'' ''error''
                [JStr ''Failed to init database. Exiting.'', JErr (Error ''database is down'')]])
          sample_world"
    by (simp add: main_def run_def start_bridge_def Let_def wp_rules failing_store_def
        port_opts_def no_opts_def sample_world_def empty_world_def sample_config_doc_def
        sample_collaborators_def sample_applyConfig_def new_DiscordBridgeConfig_def
        field_def or_num_def or_str_def truthy_num_def truthy_str_def
        cong: wp_cong)
  from wp_result [OF this] show ?thesis .
qed

theorem store_init_failure_is_fatal_witness:
  "store_init failing_store = Some (Error ''database is down'')
   \<and> trace sample_world = []
   \<and> StoreInit \<in> set (trace (snd (main failing_store port_opts sample_world)))
   \<and> fst (main failing_store port_opts sample_world) = Inl (Exit 1)
   \<and> last (trace (snd (main failing_store port_opts sample_world))) =
       LogCall ''DiscordAS'' ''error''
         [JStr ''Failed to init database. Exiting.'', JErr (Error ''database is down'')]
   \<and> AppserviceBegin \<notin> set (trace (snd (main failing_store port_opts sample_world)))
   \<and> started_listening (Some 9000) \<notin> set (trace (snd (main failing_store port_opts sample_world)))"
proof -
  have s: "store_init failing_store = Some (Error ''database is down'')"
    by (simp add: failing_store_def sample_collaborators_def)
  have e: "trace sample_world = []"
    by (simp add: sample_world_def empty_world_def)
  have i: "StoreInit \<in> set (trace (snd (main failing_store port_opts sample_world)))"
    by (simp add: failing_store_startup)
  from store_init_failure_is_fatal [OF s e, of port_opts] s e i show ?thesis by blast
qed


section \<open>The room-alias-query subscription\<close>

text \<open>The handler chain can only return or throw: none of its calls ends the process.\<close>

lemma query_room_chain_never_exits:
  "wp (query_room_chain c roomAlias createRoom) (\<lambda>r w'. \<forall>n. r \<noteq> Inl (Exit n)) w"
  by (simp add: query_room_chain_def wp_rules cong: wp_cong)

text \<open>
  C3, as the claim states it, fails on the code: the handler chain of the sample bridge
  raises for the alias \<open>#_discord_123\<close>; the failure is caught, and what is logged is the
  fixed message and the error, in which the alias does not occur.
\<close>

theorem query_room_failure_log_omits_alias:
  "fst (query_room_chain failing_roomhandler ''#_discord_123'' (\<lambda>opts. None) empty_world)
     = Inl (Throw (Error ''no such guild''))
   \<and> trace (snd (on_query_room failing_roomhandler ''#_discord_123'' (\<lambda>opts. None) empty_world))
     = [OnAliasQuery ''#_discord_123'',
        LogCall ''DiscordAS'' ''error'' [JStr query_room_msg, JErr (Error ''no such guild'')]]
   \<and> \<not> list_ex (logged_with ''#_discord_123'')
         (trace (snd (on_query_room failing_roomhandler ''#_discord_123'' (\<lambda>opts. None) empty_world)))"
proof -
  have "wp (query_room_chain failing_roomhandler ''#_discord_123'' (\<lambda>opts. None))
          (\<lambda>r w'. r = Inl (Throw (Error ''no such guild''))) empty_world"
    by (simp add: query_room_chain_def failing_roomhandler_def sample_collaborators_def
        wp_rules cong: wp_cong)
  from wp_result [OF this]
  have c: "fst (query_room_chain failing_roomhandler ''#_discord_123'' (\<lambda>opts. None) empty_world)
      = Inl (Throw (Error ''no such guild''))" .
  have "wp (on_query_room failing_roomhandler ''#_discord_123'' (\<lambda>opts. None))
          (\<lambda>r w'. trace w' =
             [OnAliasQuery ''#_discord_123'',
              LogCall ''DiscordAS'' ''error'' [JStr query_room_msg, JErr (Error ''no such guild'')]])
          empty_world"
    by (simp add: on_query_room_def query_room_chain_def failing_roomhandler_def
        sample_collaborators_def empty_world_def wp_rules cong: wp_cong)
  from wp_result [OF this]
  have t: "trace (snd (on_query_room failing_roomhandler ''#_discord_123'' (\<lambda>opts. None) empty_world))
      = [OnAliasQuery ''#_discord_123'',
         LogCall ''DiscordAS'' ''error'' [JStr query_room_msg, JErr (Error ''no such guild'')]]" .
  have "\<not> list_ex (logged_with ''#_discord_123'')
          [OnAliasQuery ''#_discord_123'',
           LogCall ''DiscordAS'' ''error'' [JStr query_room_msg, JErr (Error ''no such guild'')]]"
    by (simp add: logged_with_def query_room_msg_def)
  with c t show ?thesis by simp
qed

text \<open>
  C3, amended.  The handler always returns: whatever the chain raises is caught, so
  nothing propagates and the process does not exit.  When the chain raises, exactly one
  entry is logged after the chain's own calls: an error holding the fixed message and the
  raised error.
\<close>

theorem query_room_failure_is_contained:
  "fst (on_query_room c roomAlias createRoom w) = Inr ()
   \<and> (\<forall>e. fst (query_room_chain c roomAlias createRoom w) = Inl (Throw e) \<longrightarrow>
          trace (snd (on_query_room c roomAlias createRoom w)) =
            trace (snd (query_room_chain c roomAlias createRoom w))
            @ [LogCall ''DiscordAS'' ''error'' [JStr query_room_msg, JErr e]])"
proof (cases "query_room_chain c roomAlias createRoom w")
  case (Pair r w')
  from wp_result [OF query_room_chain_never_exits [of c roomAlias createRoom w]] Pair
  have no_exit: "\<And>n. r \<noteq> Inl (Exit n)" by simp
  show ?thesis
  proof (cases r)
    case (Inl a)
    with no_exit obtain e where "a = Throw e" by (cases a) auto
    with Inl Pair show ?thesis
      by (simp add: on_query_room_def try_catch_def log_error_def emit_def)
  next
    case (Inr u)
    with Pair show ?thesis
      by (simp add: on_query_room_def try_catch_def)
  qed
qed

theorem query_room_failure_is_contained_witness:
  "fst (query_room_chain failing_roomhandler ''#_discord_123'' (\<lambda>opts. None) empty_world)
     = Inl (Throw (Error ''no such guild''))
   \<and> fst (on_query_room failing_roomhandler ''#_discord_123'' (\<lambda>opts. None) empty_world) = Inr ()
   \<and> trace (snd (on_query_room failing_roomhandler ''#_discord_123'' (\<lambda>opts. None) empty_world)) =
       trace (snd (query_room_chain failing_roomhandler ''#_discord_123'' (\<lambda>opts. None) empty_world))
       @ [LogCall ''DiscordAS'' ''error'' [JStr query_room_msg, JErr (Error ''no such guild'')]]"
proof -
  have "wp (query_room_chain failing_roomhandler ''#_discord_123'' (\<lambda>opts. None))
          (\<lambda>r w'. r = Inl (Throw (Error ''no such guild''))) empty_world"
    by (simp add: query_room_chain_def failing_roomhandler_def sample_collaborators_def
        wp_rules cong: wp_cong)
  from wp_result [OF this]
  have c: "fst (query_room_chain failing_roomhandler ''#_discord_123'' (\<lambda>opts. None) empty_world)
      = Inl (Throw (Error ''no such guild''))" .
  from query_room_failure_is_contained
    [of failing_roomhandler "''#_discord_123''" "\<lambda>opts. None" empty_world] c
  show ?thesis by blast
qed

text \<open>The room-timeline handler has the same boundary: it always returns.\<close>

lemma on_room_event_never_exits:
  "wp (on_room_event c roomId ev) (\<lambda>r w'. r = Inr ()) w"
  by (simp add: on_room_event_def wp_rules cong: wp_cong)

section \<open>The log multiplexer\<close>







end
